theory Spec2Isabelle
  imports Main "HOL-Library.Char_ord"
begin

section \<open>Data model of the wizard (main.go)\<close>

text \<open>
  The wizard is a bubbletea program: one value of type \<open>model\<close>, an \<open>Update\<close>
  function from a model and a message to a new model and a command, and commands that
  run outside \<open>Update\<close> and come back as messages. The terminal widgets, the gRPC
  stubs, the file system and the CSV reader are libraries; their behaviour enters the
  embedding as functions of a record (\<open>env\<close> for the widgets and the dial,
  \<open>world\<close> for the file system and the remote service), so every theorem holds for whatever they do.
  Go's \<open>int\<close> is modelled as \<open>int\<close>: the only counter, \<open>created\<close>, is bounded
  by \<open>len(records)\<close>, itself a Go \<open>int\<close>, so it cannot wrap.
\<close>

datatype state =
    stateConnecting
  | stateTenantSelect
  | stateApplicationSelect
  | stateDeviceProfileSelect
  | stateFileSelect
  | stateProcessing
  | stateComplete
  | stateError

text \<open>\<open>type item struct { title, desc, id string }\<close>; the field \<open>id\<close> is written
  \<open>id'\<close> since \<open>id\<close> is HOL's identity function.\<close>

record item =
  title :: string
  desc :: string
  id' :: string

text \<open>The connection handle \<open>*grpc.ClientConn\<close>: the model holds a pointer, \<open>None\<close> is
  the nil pointer; whether the connection has been closed is kept with it.\<close>

record conn =
  target :: string
  closed :: bool

datatype echo = EchoNormal | EchoPassword

text \<open>The parts of the three widgets that main.go reads or writes. What their own
  \<open>Update\<close> methods do is a parameter (\<open>env\<close> below).\<close>

record textinput =
  tiValue :: string
  Placeholder :: string
  focus :: bool
  CharLimit :: int
  Width :: int
  EchoMode :: echo

text \<open>\<open>list.Model\<close>: \<open>items = None\<close> is the zero value, whose \<open>Items()\<close> is nil.\<close>

record listModel =
  items :: "item list option"
  Title :: string
  listWidth :: int
  listHeight :: int
  cursor :: nat

record filepicker =
  AllowedTypes :: "string list"
  CurrentDirectory :: string
  fpFiles :: "string list"
  fpSelected :: nat

text \<open>\<open>type model struct\<close>. The four service clients are stubs over \<open>client\<close> and are
  created together with it in \<open>handleConnect\<close>; their calls are the functions of
  \<open>world\<close>. \<open>err\<close> holds the error's text.\<close>

record model =
  state :: state
  client :: "conn option"
  apiToken :: string
  serverAddr :: string
  width :: int
  height :: int
  tenantList :: listModel
  appList :: listModel
  profileList :: listModel
  selectedTenant :: string
  selectedApp :: string
  selectedProfile :: string
  filepicker :: filepicker
  tokenInput :: textinput
  status :: string
  err :: "string option"
  devicesCreated :: int

text \<open>The messages. \<open>KeyMsg k\<close> carries \<open>msg.String()\<close>; \<open>OtherMsg\<close> stands for the
  messages of the widget libraries (cursor blink, directory listings, ...).\<close>

datatype msg =
    WindowSizeMsg int int
  | KeyMsg string
  | connectMsg
  | tenantsLoadedMsg "item list"
  | appsLoadedMsg "item list"
  | profilesLoadedMsg "item list"
  | devicesCreatedMsg int
  | errorMsg string
  | OtherMsg string

text \<open>The commands \<open>Update\<close> returns: nil, \<open>tea.Quit\<close>, \<open>textinput.Blink\<close>, the two
  literal closures that return \<open>connectMsg{}\<close> and an \<open>errorMsg\<close>, the closures of the
  three loaders and of \<open>processCSV\<close>, and a widget's own command (opaque, possibly nil).
  A method with a value receiver that returns a closure captures a copy of the model: the
  copy is the command's argument.\<close>

datatype cmd =
    NoCmd
  | Quit
  | Blink
  | EmitConnect
  | EmitError string
  | LoadTenants model
  | LoadApplications model
  | LoadDeviceProfiles model
  | ProcessCSV model string
  | WidgetCmd string

section \<open>The CSV importer\<close>

subsection \<open>isHexString\<close>

text \<open>Go ranges over the runes of \<open>s\<close>; a \<open>string\<close> here is the byte sequence. The two
  agree on the result: the eight-bit characters in the three ranges are ASCII, and every
  byte of a multi-byte or invalid UTF-8 sequence is at least 0x80, as is the rune it
  decodes to, so neither passes the test.\<close>

definition isHexRune :: "char \<Rightarrow> bool" where
  "isHexRune c =
     ((c \<ge> CHR ''0'' \<and> c \<le> CHR ''9'') \<or> (c \<ge> CHR ''a'' \<and> c \<le> CHR ''f'')
      \<or> (c \<ge> CHR ''A'' \<and> c \<le> CHR ''F''))"

primrec rangeHex :: "string \<Rightarrow> bool" where
  "rangeHex [] = True"
| "rangeHex (c # cs) = (if \<not> isHexRune c then False else rangeHex cs)"

definition isHexString :: "string \<Rightarrow> bool" where
  "isHexString s = (if length s = 0 then False else rangeHex s)"

text \<open>The spec's wording of the same test, for comparison: a non-empty string made only
  of the characters 0-9, a-f, A-F.\<close>

definition spec_pure_hex :: "string \<Rightarrow> bool" where
  "spec_pure_hex s = (s \<noteq> [] \<and> set s \<subseteq> set ''0123456789abcdefABCDEF'')"

subsection \<open>processCSV\<close>

datatype go_panic = IndexOutOfRange

text \<open>\<open>xs[i]\<close> in Go: a run-time panic when \<open>i\<close> is out of range.\<close>

definition at :: "'a list \<Rightarrow> nat \<Rightarrow> go_panic + 'a" where
  "at xs i = (if i < length xs then Inr (xs ! i) else Inl IndexOutOfRange)"

text \<open>\<open>api.Device\<close>, the fields the importer sets.\<close>

record device =
  DevEui :: string
  Name :: string
  Description :: string
  ApplicationId :: string
  DeviceProfileId :: string
  IsDisabled :: bool

text \<open>The list responses of the remote API, the fields the loaders read
  (\<open>Id\<close>, \<open>Name\<close> and, for applications, \<open>Description\<close>).\<close>

record tenantListItem =
  tenant_Id :: string
  tenant_Name :: string

record applicationListItem =
  app_Id :: string
  app_Name :: string
  app_Description :: string

record deviceProfileListItem =
  profile_Id :: string
  profile_Name :: string

text \<open>What the commands touch outside the program. The first argument of every RPC is
  the authorization value of the outgoing context. The list calls take the request's
  fields (\<open>TenantId\<close> where there is one, then \<open>Limit\<close>) and give an error or the
  \<open>Result\<close> of the response. \<open>osOpen\<close> gives an error or the file's contents,
  \<open>ReadAll\<close> an error or the records. The remote service keeps state, so the answer to
  a create call (\<open>None\<close> for success, \<open>Some e\<close> for the error \<open>e\<close>) may depend on the
  requests it has already received in this import: they are \<open>Create\<close>'s first
  argument.\<close>

record world =
  ListTenants :: "string \<Rightarrow> nat \<Rightarrow> string + tenantListItem list"
  ListApplications :: "string \<Rightarrow> string \<Rightarrow> nat \<Rightarrow> string + applicationListItem list"
  ListDeviceProfiles :: "string \<Rightarrow> string \<Rightarrow> nat \<Rightarrow> string + deviceProfileListItem list"
  osOpen :: "string \<Rightarrow> string + string"
  ReadAll :: "string \<Rightarrow> string + string list list"
  Create :: "device list \<Rightarrow> string \<Rightarrow> device \<Rightarrow> string option"

text \<open>The state of the loop: the counter, and the two effects of the loop as traces, the
  create requests issued and the lines written by \<open>log.Printf\<close>, oldest first.\<close>

record import_st =
  created :: int
  calls :: "device list"
  logged :: "string list"

definition import_st0 :: import_st where
  "import_st0 = \<lparr>created = 0, calls = [], logged = []\<rparr>"

text \<open>Lines 396-400: the start index. \<open>&&\<close> evaluates \<open>records[0][0]\<close> only when
  \<open>len(records) > 0\<close>, so \<open>records[0]\<close> is in range and only the inner index can panic.\<close>

definition headerStart :: "string list list \<Rightarrow> go_panic + nat" where
  "headerStart records =
     (if length records > 0 then
        (case at (records ! 0) 0 of
           Inl p \<Rightarrow> Inl p
         | Inr c \<Rightarrow> if \<not> isHexString c then Inr 1 else Inr 0)
      else Inr 0)"

text \<open>Lines 403-432: the body of the loop for one record. \<open>continue\<close> leaves the state as
  it is. The indices 0, 1 and 2 are in range under the two length tests.\<close>

definition processRow :: "world \<Rightarrow> model \<Rightarrow> string \<Rightarrow> string list \<Rightarrow> import_st \<Rightarrow> import_st" where
  "processRow w m ctx record st =
     (if length record < 2 then st
      else
        let devEui = record ! 0;
            name = record ! 1;
            description = (if length record > 2 then record ! 2 else '''');
            req = \<lparr>DevEui = devEui, Name = name, Description = description,
                   ApplicationId = selectedApp m, DeviceProfileId = selectedProfile m,
                   IsDisabled = False\<rparr>;
            err = Create w (calls st) ctx req;
            st1 = st\<lparr>calls := calls st @ [req]\<rparr>
        in (case err of
              Some e \<Rightarrow>
                st1\<lparr>logged := logged st1 @ [''Failed to create device '' @ devEui @ '': '' @ e]\<rparr>
            | None \<Rightarrow> st1\<lparr>created := created st1 + 1\<rparr>))"

text \<open>\<open>for i := start; i < len(records); i++\<close>.\<close>

function processRows ::
  "world \<Rightarrow> model \<Rightarrow> string \<Rightarrow> string list list \<Rightarrow> nat \<Rightarrow> import_st \<Rightarrow> import_st" where
  "processRows w m ctx records i st =
     (if i < length records
      then processRows w m ctx records (i + 1) (processRow w m ctx (records ! i) st)
      else st)"
  by pat_completeness auto
termination
  by (relation "measure (\<lambda>(w, m, ctx, records, i, st). length records - i)") auto

declare processRows.simps [simp del]

text \<open>The closure returned by \<open>processCSV\<close>, run: a panic, or the message it returns
  together with the final loop state (the requests issued and the lines logged).\<close>

definition processCSV :: "world \<Rightarrow> model \<Rightarrow> string \<Rightarrow> go_panic + (msg \<times> import_st)" where
  "processCSV w m filepath =
     (case osOpen w filepath of
        Inl e \<Rightarrow> Inr (errorMsg e, import_st0)
      | Inr file \<Rightarrow>
          (case ReadAll w file of
             Inl e \<Rightarrow> Inr (errorMsg e, import_st0)
           | Inr records \<Rightarrow>
               let ctx = ''Bearer '' @ apiToken m in
               (case headerStart records of
                  Inl p \<Rightarrow> Inl p
                | Inr start \<Rightarrow>
                    let st = processRows w m ctx records start import_st0
                    in Inr (devicesCreatedMsg (created st), st))))"

section \<open>The selection-list loaders\<close>

text \<open>\<open>var items []item; for _, t := range resp.Result { items = append(items, ...) }\<close>:
  the loop, with the slice built so far as accumulator.\<close>

primrec appendTenants :: "tenantListItem list \<Rightarrow> item list \<Rightarrow> item list" where
  "appendTenants [] its = its"
| "appendTenants (tenant # rest) its =
     appendTenants rest
       (its @ [\<lparr>title = tenant_Name tenant, desc = tenant_Name tenant, id' = tenant_Id tenant\<rparr>])"

primrec appendApplications :: "applicationListItem list \<Rightarrow> item list \<Rightarrow> item list" where
  "appendApplications [] its = its"
| "appendApplications (app # rest) its =
     appendApplications rest
       (its @ [\<lparr>title = app_Name app, desc = app_Description app, id' = app_Id app\<rparr>])"

primrec appendProfiles :: "deviceProfileListItem list \<Rightarrow> item list \<Rightarrow> item list" where
  "appendProfiles [] its = its"
| "appendProfiles (profile # rest) its =
     appendProfiles rest
       (its @ [\<lparr>title = profile_Name profile, desc = profile_Name profile, id' = profile_Id profile\<rparr>])"

text \<open>The closures returned by the three loaders, run in the world \<open>w\<close>.\<close>

definition loadTenants :: "world \<Rightarrow> model \<Rightarrow> msg" where
  "loadTenants w m =
     (let ctx = ''Bearer '' @ apiToken m in
      case ListTenants w ctx 100 of
        Inl e \<Rightarrow> errorMsg e
      | Inr result \<Rightarrow> tenantsLoadedMsg (appendTenants result []))"

definition loadApplications :: "world \<Rightarrow> model \<Rightarrow> msg" where
  "loadApplications w m =
     (let ctx = ''Bearer '' @ apiToken m in
      case ListApplications w ctx (selectedTenant m) 100 of
        Inl e \<Rightarrow> errorMsg e
      | Inr result \<Rightarrow> appsLoadedMsg (appendApplications result []))"

definition loadDeviceProfiles :: "world \<Rightarrow> model \<Rightarrow> msg" where
  "loadDeviceProfiles w m =
     (let ctx = ''Bearer '' @ apiToken m in
      case ListDeviceProfiles w ctx (selectedTenant m) 100 of
        Inl e \<Rightarrow> errorMsg e
      | Inr result \<Rightarrow> profilesLoadedMsg (appendProfiles result []))"

section \<open>The wizard state machine\<close>

text \<open>The libraries \<open>Update\<close> calls: the widgets' own update methods, the list's
  \<open>SelectedItem\<close> (\<open>None\<close> is nil), the file picker's \<open>DidSelectFile\<close> and
  \<open>Init\<close>, \<open>os.UserHomeDir\<close> and \<open>grpc.Dial\<close> (an error or a connection). A widget's
  command is opaque.\<close>

record env =
  userHomeDir :: string
  tiUpdate :: "textinput \<Rightarrow> msg \<Rightarrow> textinput \<times> string"
  listUpdate :: "listModel \<Rightarrow> msg \<Rightarrow> listModel \<times> string"
  SelectedItem :: "listModel \<Rightarrow> item option"
  fpUpdate :: "filepicker \<Rightarrow> msg \<Rightarrow> filepicker \<times> string"
  DidSelectFile :: "filepicker \<Rightarrow> msg \<Rightarrow> bool \<times> string"
  fpInit :: "filepicker \<Rightarrow> string"
  grpcDial :: "string \<Rightarrow> string + conn"

definition zeroList :: listModel where
  "zeroList = \<lparr>items = None, Title = [], listWidth = 0, listHeight = 0, cursor = 0\<rparr>"

definition listNew :: "item list \<Rightarrow> int \<Rightarrow> int \<Rightarrow> listModel" where
  "listNew its w h = \<lparr>items = Some its, Title = ''List'', listWidth = w, listHeight = h, cursor = 0\<rparr>"

definition SetSize :: "listModel \<Rightarrow> int \<Rightarrow> int \<Rightarrow> listModel" where
  "SetSize l w h = l\<lparr>listWidth := w, listHeight := h\<rparr>"

definition initialModel :: "env \<Rightarrow> model" where
  "initialModel env =
     (let ti = \<lparr>tiValue = [], Placeholder = ''Enter ChirpStack API token'', focus = True,
                 CharLimit = 256, Width = 50, EchoMode = EchoPassword\<rparr>;
          fp = \<lparr>AllowedTypes = [''.csv''], CurrentDirectory = userHomeDir env,
                 fpFiles = [], fpSelected = 0\<rparr>
      in \<lparr>state = stateConnecting, client = None, apiToken = [],
           serverAddr = ''localhost:8081'', width = 80, height = 24,
           tenantList = zeroList, appList = zeroList, profileList = zeroList,
           selectedTenant = [], selectedApp = [], selectedProfile = [],
           filepicker = fp, tokenInput = ti,
           status = ''Enter your ChirpStack API token'', err = None, devicesCreated = 0\<rparr>)"

text \<open>\<open>Init\<close> returns \<open>textinput.Blink\<close>.\<close>

definition Init :: "model \<Rightarrow> cmd" where
  "Init m = Blink"

definition handleEnter :: "env \<Rightarrow> model \<Rightarrow> model \<times> cmd" where
  "handleEnter env m =
     (case state m of
        stateConnecting \<Rightarrow>
          if tiValue (tokenInput m) \<noteq> [] then
            (let m1 = m\<lparr>apiToken := tiValue (tokenInput m)\<rparr> in (m1, EmitConnect))
          else (m, NoCmd)
      | stateTenantSelect \<Rightarrow>
          (case SelectedItem env (tenantList m) of
             Some it \<Rightarrow> (let m1 = m\<lparr>selectedTenant := id' it\<rparr> in (m1, LoadApplications m1))
           | None \<Rightarrow> (m, NoCmd))
      | stateApplicationSelect \<Rightarrow>
          (case SelectedItem env (appList m) of
             Some it \<Rightarrow> (let m1 = m\<lparr>selectedApp := id' it\<rparr> in (m1, LoadDeviceProfiles m1))
           | None \<Rightarrow> (m, NoCmd))
      | stateDeviceProfileSelect \<Rightarrow>
          (case SelectedItem env (profileList m) of
             Some it \<Rightarrow>
               (let m1 = m\<lparr>selectedProfile := id' it\<rparr>;
                    m2 = m1\<lparr>state := stateFileSelect\<rparr>
                in (m2, WidgetCmd (fpInit env (filepicker m2))))
           | None \<Rightarrow> (m, NoCmd))
      | _ \<Rightarrow> (m, NoCmd))"

definition handleConnect :: "env \<Rightarrow> model \<Rightarrow> model \<times> cmd" where
  "handleConnect env m =
     (case grpcDial env (serverAddr m) of
        Inl e \<Rightarrow>
          (m, EmitError (''failed to connect to ChirpStack at '' @ serverAddr m @ '': '' @ e @
                 [CHR 0x0A] @ ''Make sure ChirpStack gRPC API is running on this address''))
      | Inr c \<Rightarrow> (let m1 = m\<lparr>client := Some c\<rparr> in (m1, LoadTenants m1)))"

text \<open>\<open>m.client.Close()\<close> under \<open>if m.client != nil\<close>.\<close>

definition closeClient :: "model \<Rightarrow> model" where
  "closeClient m =
     (case client m of
        None \<Rightarrow> m
      | Some c \<Rightarrow> m\<lparr>client := Some (c\<lparr>closed := True\<rparr>)\<rparr>)"

text \<open>Lines 223-254 of \<open>Update\<close>: the switch on the state, which hands the message to
  the widget in focus.\<close>

definition stateUpdate :: "env \<Rightarrow> model \<Rightarrow> msg \<Rightarrow> model \<times> cmd" where
  "stateUpdate env m message =
     (case state m of
        stateConnecting \<Rightarrow>
          (let (ti, c) = tiUpdate env (tokenInput m) message
           in (m\<lparr>tokenInput := ti\<rparr>, WidgetCmd c))
      | stateTenantSelect \<Rightarrow>
          (let (l, c) = listUpdate env (tenantList m) message
           in (m\<lparr>tenantList := l\<rparr>, WidgetCmd c))
      | stateApplicationSelect \<Rightarrow>
          (let (l, c) = listUpdate env (appList m) message
           in (m\<lparr>appList := l\<rparr>, WidgetCmd c))
      | stateDeviceProfileSelect \<Rightarrow>
          (let (l, c) = listUpdate env (profileList m) message
           in (m\<lparr>profileList := l\<rparr>, WidgetCmd c))
      | stateFileSelect \<Rightarrow>
          (let (fp, c) = fpUpdate env (filepicker m) message;
               m1 = m\<lparr>filepicker := fp\<rparr>;
               (didSelect, path) = DidSelectFile env (filepicker m1) message
           in if didSelect then (m1, ProcessCSV m1 path) else (m1, WidgetCmd c))
      | _ \<Rightarrow> (m, NoCmd))"

text \<open>Lines 150-221 of \<open>Update\<close>: the switch on the message's type. A key other than
  the three named ones, and a message of no listed type, fall through to the switch on the
  state.\<close>

definition Update :: "env \<Rightarrow> model \<Rightarrow> msg \<Rightarrow> model \<times> cmd" where
  "Update env m message =
     (case message of
        WindowSizeMsg w h \<Rightarrow>
          (let m1 = m\<lparr>width := w, height := h\<rparr>;
               m2 = (if items (tenantList m1) \<noteq> None
                     then m1\<lparr>tenantList := SetSize (tenantList m1) (w - 4) (h - 8)\<rparr> else m1);
               m3 = (if items (appList m2) \<noteq> None
                     then m2\<lparr>appList := SetSize (appList m2) (w - 4) (h - 8)\<rparr> else m2);
               m4 = (if items (profileList m3) \<noteq> None
                     then m3\<lparr>profileList := SetSize (profileList m3) (w - 4) (h - 8)\<rparr> else m3)
           in (m4, NoCmd))
      | KeyMsg k \<Rightarrow>
          if k = ''ctrl+c'' \<or> k = ''q'' then (closeClient m, Quit)
          else if k = ''enter'' then handleEnter env m
          else stateUpdate env m message
      | connectMsg \<Rightarrow> handleConnect env m
      | tenantsLoadedMsg its \<Rightarrow>
          (let l = (listNew its (width m - 4) (height m - 8))\<lparr>Title := ''Select Tenant''\<rparr>
           in (m\<lparr>tenantList := l, state := stateTenantSelect\<rparr>, NoCmd))
      | appsLoadedMsg its \<Rightarrow>
          (let l = (listNew its (width m - 4) (height m - 8))\<lparr>Title := ''Select Application''\<rparr>
           in (m\<lparr>appList := l, state := stateApplicationSelect\<rparr>, NoCmd))
      | profilesLoadedMsg its \<Rightarrow>
          (let l = (listNew its (width m - 4) (height m - 8))\<lparr>Title := ''Select Device Profile''\<rparr>
           in (m\<lparr>profileList := l, state := stateDeviceProfileSelect\<rparr>, NoCmd))
      | devicesCreatedMsg n \<Rightarrow> (m\<lparr>devicesCreated := n, state := stateComplete\<rparr>, NoCmd)
      | errorMsg e \<Rightarrow> (m\<lparr>err := Some e, state := stateError\<rparr>, NoCmd)
      | OtherMsg x \<Rightarrow> stateUpdate env m message)"

section \<open>Running the program\<close>

text \<open>The bubbletea runtime: it holds the current model and the commands in flight, hands
  \<open>Update\<close> one message at a time, and stops on \<open>tea.Quit\<close> or on a panic. A message is
  either input (a key, a resize, a widget library's own message) or the result of a
  command in flight, which finishes in whatever the world is at that moment.\<close>

datatype event = Input msg | Done nat world

definition isInput :: "msg \<Rightarrow> bool" where
  "isInput message =
     (case message of
        WindowSizeMsg w h \<Rightarrow> True | KeyMsg k \<Rightarrow> True | OtherMsg x \<Rightarrow> True | _ \<Rightarrow> False)"

text \<open>What a command returns when run in the world \<open>w\<close>: \<open>None\<close> for the commands of the
  libraries (their messages arrive as input), otherwise a panic or a message.\<close>

definition runCmd :: "world \<Rightarrow> cmd \<Rightarrow> (go_panic + msg) option" where
  "runCmd w c =
     (case c of
        EmitConnect \<Rightarrow> Some (Inr connectMsg)
      | EmitError e \<Rightarrow> Some (Inr (errorMsg e))
      | LoadTenants m \<Rightarrow> Some (Inr (loadTenants w m))
      | LoadApplications m \<Rightarrow> Some (Inr (loadApplications w m))
      | LoadDeviceProfiles m \<Rightarrow> Some (Inr (loadDeviceProfiles w m))
      | ProcessCSV m path \<Rightarrow>
          Some (case processCSV w m path of Inl p \<Rightarrow> Inl p | Inr (message, st) \<Rightarrow> Inr message)
      | _ \<Rightarrow> None)"

text \<open>The commands the runtime keeps track of here are the program's own; nil is no
  command, and the messages of a library's command arrive as input.\<close>

definition isOwn :: "cmd \<Rightarrow> bool" where
  "isOwn c = (case c of NoCmd \<Rightarrow> False | Quit \<Rightarrow> False | Blink \<Rightarrow> False | WidgetCmd x \<Rightarrow> False | _ \<Rightarrow> True)"

text \<open>One turn of the event loop; \<open>None\<close> when the program has ended (quit or panic) or
  the event cannot happen (no such command in flight, not an input message).\<close>

definition deliver :: "env \<Rightarrow> model \<Rightarrow> cmd list \<Rightarrow> msg \<Rightarrow> (model \<times> cmd list) option" where
  "deliver env m inflight message =
     (let (m1, c) = Update env m message
      in if c = Quit then None else Some (m1, inflight @ filter isOwn [c]))"

definition step :: "env \<Rightarrow> model \<times> cmd list \<Rightarrow> event \<Rightarrow> (model \<times> cmd list) option" where
  "step env cfg ev =
     (case ev of
        Input message \<Rightarrow>
          if isInput message then deliver env (fst cfg) (snd cfg) message else None
      | Done k w \<Rightarrow>
          if k < length (snd cfg) then
            (case runCmd w (snd cfg ! k) of
               Some (Inr message) \<Rightarrow>
                 deliver env (fst cfg) (take k (snd cfg) @ drop (Suc k) (snd cfg)) message
             | _ \<Rightarrow> None)
          else None)"

primrec exec :: "env \<Rightarrow> model \<times> cmd list \<Rightarrow> event list \<Rightarrow> (model \<times> cmd list) option" where
  "exec env cfg [] = Some cfg"
| "exec env cfg (ev # evs) =
     (case step env cfg ev of None \<Rightarrow> None | Some cfg1 \<Rightarrow> exec env cfg1 evs)"

definition boot :: "env \<Rightarrow> model \<times> cmd list" where
  "boot env = (initialModel env, filter isOwn [Init (initialModel env)])"

section \<open>Notions used in the statements\<close>

text \<open>The answers of the remote service to a sequence of create requests, the first sent
  after the requests \<open>hist\<close>.\<close>

primrec answersFrom :: "world \<Rightarrow> string \<Rightarrow> device list \<Rightarrow> device list \<Rightarrow> string option list" where
  "answersFrom w ctx hist [] = []"
| "answersFrom w ctx hist (req # reqs) =
     Create w hist ctx req # answersFrom w ctx (hist @ [req]) reqs"

text \<open>The request of a row of at least two cells, and the log lines of the failed ones
  among requests paired with their answers.\<close>

definition rowRequest :: "model \<Rightarrow> string list \<Rightarrow> device" where
  "rowRequest m r =
     \<lparr>DevEui = r ! 0, Name = r ! 1, Description = (if 3 \<le> length r then r ! 2 else []),
      ApplicationId = selectedApp m, DeviceProfileId = selectedProfile m, IsDisabled = False\<rparr>"

definition failureLines :: "(device \<times> string option) list \<Rightarrow> string list" where
  "failureLines outcomes =
     concat (map (\<lambda>(req, a). case a of None \<Rightarrow> []
                              | Some e \<Rightarrow> [''Failed to create device '' @ DevEui req @ '': '' @ e])
                 outcomes)"

subsection \<open>A concrete setting\<close>

text \<open>Widgets that do the least: the text input appends the key's text, the lists keep
  their cursor on the first item, the file picker reports the file \<open>devices.csv\<close> of its
  directory when asked to, and the dial succeeds.\<close>

definition demo_env :: env where
  "demo_env =
     \<lparr>userHomeDir = ''/home/op'',
      tiUpdate = (\<lambda>ti message. case message of KeyMsg k \<Rightarrow> (ti\<lparr>tiValue := tiValue ti @ k\<rparr>, [])
                                            | _ \<Rightarrow> (ti, [])),
      listUpdate = (\<lambda>l message. (l, [])),
      SelectedItem = (\<lambda>l. case items l of None \<Rightarrow> None
                                 | Some its \<Rightarrow> if cursor l < length its then Some (its ! cursor l) else None),
      fpUpdate = (\<lambda>fp message. (fp, [])),
      DidSelectFile = (\<lambda>fp message. if message = OtherMsg ''select''
                                     then (True, CurrentDirectory fp @ ''/devices.csv'')
                                     else (False, [])),
      fpInit = (\<lambda>fp. ''readDir''),
      grpcDial = (\<lambda>addr. Inr \<lparr>target = addr, closed = False\<rparr>)\<rparr>"

text \<open>A file with a header and five data rows, and a remote service that refuses the
  third device.\<close>

definition demo_records :: "string list list" where
  "demo_records =
     [[''dev_eui'', ''name'', ''description''],
      [''04ABEF0123456701'', ''sensor-1'', ''hallway unit''],
      [''04ABEF0123456702'', ''sensor-2''],
      [''04ABEF0123456703'', ''sensor-3'', ''roof''],
      [''04ABEF0123456704'', ''sensor-4''],
      [''04ABEF0123456705'', ''sensor-5'', ''cellar'']]"

definition demo_world :: world where
  "demo_world =
     \<lparr>ListTenants = (\<lambda>ctx limit. Inr [\<lparr>tenant_Id = ''t-1'', tenant_Name = ''acme''\<rparr>,
                                         \<lparr>tenant_Id = ''t-2'', tenant_Name = ''globex''\<rparr>]),
      ListApplications = (\<lambda>ctx tenant limit.
         Inr [\<lparr>app_Id = ''a-1'', app_Name = ''sensors'', app_Description = ''field sensors''\<rparr>]),
      ListDeviceProfiles = (\<lambda>ctx tenant limit.
         Inr [\<lparr>profile_Id = ''p-1'', profile_Name = ''class-a''\<rparr>]),
      osOpen = (\<lambda>path. if path = ''/home/op/devices.csv'' then Inr ''devices''
                        else if path = ''/home/op/blank.csv'' then Inr ''blank''
                        else Inl ''no such file or directory''),
      ReadAll = (\<lambda>file. if file = ''devices'' then Inr demo_records
                         else if file = ''blank'' then Inr [[]]
                         else Inl ''parse error''),
      Create = (\<lambda>hist ctx req. if DevEui req = ''04ABEF0123456703''
                                then Some ''rpc error: code = AlreadyExists'' else None)\<rparr>"

text \<open>The same remote service, but its one tenant has an empty \<open>Id\<close>.\<close>

definition noid_world :: world where
  "noid_world = demo_world\<lparr>ListTenants := (\<lambda>ctx limit. Inr [\<lparr>tenant_Id = [], tenant_Name = ''acme''\<rparr>])\<rparr>"

text \<open>A model as it is once the operator has chosen tenant, application and profile.\<close>

definition demo_model :: model where
  "demo_model =
     (initialModel demo_env)\<lparr>state := stateFileSelect, apiToken := ''tok'',
        selectedTenant := ''t-1'', selectedApp := ''a-1'', selectedProfile := ''p-1''\<rparr>"

text \<open>A whole session in the world \<open>w\<close>: the operator types the token \<open>tok\<close>, confirms,
  takes the first tenant, application and profile as each list arrives, and picks the
  file; every command finishes before the next key.\<close>

definition session_keys :: "world \<Rightarrow> event list" where
  "session_keys w =
     [Input (KeyMsg ''t''), Input (KeyMsg ''o''), Input (KeyMsg ''k''),
      Input (KeyMsg ''enter''), Done 0 w, Done 0 w,
      Input (KeyMsg ''enter''), Done 0 w,
      Input (KeyMsg ''enter''), Done 0 w,
      Input (KeyMsg ''enter''),
      Input (OtherMsg ''select'')]"

subsection \<open>What the wizard relies on from outside, and the invariant of a session\<close>




definition itemsOk :: "listModel \<Rightarrow> bool" where
  "itemsOk l = (case items l of None \<Rightarrow> True | Some its \<Rightarrow> (\<forall>it \<in> set its. id' it \<noteq> []))"







section \<open>Facts about the importer\<close>

subsection \<open>isHexString against the spec's wording\<close>

lemma isHexRune_iff: "isHexRune c \<longleftrightarrow> c \<in> set ''0123456789abcdefABCDEF''"
  by (cases c) (simp add: isHexRune_def less_eq_char_def)

lemma rangeHex_all: "rangeHex s \<longleftrightarrow> (\<forall>c \<in> set s. isHexRune c)"
  by (induction s) simp_all

lemma rangeHex_iff: "rangeHex s \<longleftrightarrow> set s \<subseteq> set ''0123456789abcdefABCDEF''"
  unfolding rangeHex_all isHexRune_iff by blast

lemma isHexString_spec: "isHexString s = spec_pure_hex s"
  by (cases s) (simp_all add: isHexString_def spec_pure_hex_def rangeHex_iff del: set_simps rangeHex.simps)

subsection \<open>The loop as a fold over the rows from the start index\<close>

lemma processRows_fold:
  "processRows w m ctx records i st = fold (processRow w m ctx) (drop i records) st"
proof (induction w m ctx records i st rule: processRows.induct)
  case (1 w m ctx records i st)
  show ?case
  proof (cases "i < length records")
    case True
    then have "drop i records = records ! i # drop (Suc i) records"
      by (simp add: Cons_nth_drop_Suc)
    with True "1.IH" show ?thesis
      by (subst processRows.simps) simp
  next
    case False
    then show ?thesis by (subst processRows.simps) simp
  qed
qed

lemma processRow_short: "length r < 2 \<Longrightarrow> processRow w m ctx r st = st"
  by (simp add: processRow_def)

lemma processRow_calls:
  "calls (processRow w m ctx r st) = calls st @ (if 2 \<le> length r then [rowRequest m r] else [])"
  by (auto simp: processRow_def rowRequest_def Let_def split: option.splits)

lemma processRow_created:
  "created (processRow w m ctx r st) =
     created st + (if 2 \<le> length r \<and> Create w (calls st) ctx (rowRequest m r) = None then 1 else 0)"
  by (auto simp: processRow_def rowRequest_def Let_def split: option.splits)

lemma processRow_logged:
  "logged (processRow w m ctx r st) =
     logged st @ (if 2 \<le> length r then failureLines [(rowRequest m r, Create w (calls st) ctx (rowRequest m r))] else [])"
  by (auto simp: processRow_def rowRequest_def failureLines_def Let_def split: option.splits)

lemma fold_calls:
  "calls (fold (processRow w m ctx) rows st) =
     calls st @ map (rowRequest m) (filter (\<lambda>r. 2 \<le> length r) rows)"
  by (induction rows arbitrary: st) (simp_all add: processRow_calls)

lemma fold_created:
  "created (fold (processRow w m ctx) rows st) =
     created st + int (length (filter (\<lambda>a. a = None)
        (answersFrom w ctx (calls st) (map (rowRequest m) (filter (\<lambda>r. 2 \<le> length r) rows)))))"
  by (induction rows arbitrary: st) (simp_all add: processRow_calls processRow_created)

lemma fold_logged:
  "logged (fold (processRow w m ctx) rows st) =
     logged st @ failureLines (zip (map (rowRequest m) (filter (\<lambda>r. 2 \<le> length r) rows))
        (answersFrom w ctx (calls st) (map (rowRequest m) (filter (\<lambda>r. 2 \<le> length r) rows))))"
  by (induction rows arbitrary: st) (simp_all add: processRow_calls processRow_logged failureLines_def)


subsection \<open>Header detection, reading, and the two closing messages\<close>

lemma headerStart_Nil: "headerStart [] = Inr 0"
  by (simp add: headerStart_def)

lemma headerStart_Cons:
  "headerStart ((c # cs) # rest) = Inr (if isHexString c then 0 else 1)"
  by (simp add: headerStart_def at_def)

lemma headerStart_empty_row: "headerStart ([] # rest) = Inl IndexOutOfRange"
  by (simp add: headerStart_def at_def)

lemma processCSV_read:
  assumes "osOpen w path = Inr file" and "ReadAll w file = Inr records"
    and "headerStart records = Inr start"
  shows "processCSV w m path =
     Inr (devicesCreatedMsg (created (fold (processRow w m (''Bearer '' @ apiToken m)) (drop start records) import_st0)),
          fold (processRow w m (''Bearer '' @ apiToken m)) (drop start records) import_st0)"
  using assms by (simp add: processCSV_def Let_def processRows_fold)

lemma Update_devicesCreated:
  "Update env m (devicesCreatedMsg n) = (m\<lparr>devicesCreated := n, state := stateComplete\<rparr>, NoCmd)"
  by (simp add: Update_def)

lemma Update_error:
  "Update env m (errorMsg e) = (m\<lparr>err := Some e, state := stateError\<rparr>, NoCmd)"
  by (simp add: Update_def)

section \<open>The claims\<close>

text \<open>
  C1 (best-effort batch). Once the file has been read, \<open>processCSV\<close> always returns
  \<open>devicesCreatedMsg\<close>, never an error, whatever the remote service answers: a create
  request is issued for every row of at least two cells from the start index on, failed
  or not; the count it returns is the number of requests the service answered without
  error; each failed request leaves one log line naming the device and the error; and
  \<open>Update\<close> takes the message to \<open>stateComplete\<close> with that count. For a file of
  five data rows whose third is refused, the count is 4 and the state Complete.
\<close>

theorem C1_best_effort_batch:
  assumes "osOpen w path = Inr file" and "ReadAll w file = Inr records"
    and "headerStart records = Inr start"
  shows "\<exists>st. processCSV w m path = Inr (devicesCreatedMsg (created st), st)
      \<and> (let ctx = ''Bearer '' @ apiToken m;
              reqs = map (rowRequest m) (filter (\<lambda>r. 2 \<le> length r) (drop start records));
              answers = answersFrom w ctx [] reqs
          in calls st = reqs
           \<and> created st = int (length (filter (\<lambda>a. a = None) answers))
           \<and> logged st = failureLines (zip reqs answers))
      \<and> Update env m' (devicesCreatedMsg (created st)) =
            (m'\<lparr>devicesCreated := created st, state := stateComplete\<rparr>, NoCmd)"
proof -
  let ?st = "fold (processRow w m (''Bearer '' @ apiToken m)) (drop start records) import_st0"
  have "processCSV w m path = Inr (devicesCreatedMsg (created ?st), ?st)"
    using assms by (rule processCSV_read)
  moreover have "calls import_st0 = []" "created import_st0 = 0" "logged import_st0 = []"
    by (simp_all add: import_st0_def)
  ultimately show ?thesis
    by (intro exI [of _ ?st]) (simp add: Let_def fold_calls fold_created fold_logged Update_devicesCreated)
qed

theorem C1_best_effort_batch_witness:
  "osOpen demo_world ''/home/op/devices.csv'' = Inr ''devices''
   \<and> ReadAll demo_world ''devices'' = Inr demo_records
   \<and> headerStart demo_records = Inr 1
   \<and> length (drop 1 demo_records) = 5
   \<and> (\<exists>st. processCSV demo_world demo_model ''/home/op/devices.csv'' = Inr (devicesCreatedMsg 4, st)
          \<and> length (calls st) = 5
          \<and> logged st = [''Failed to create device 04ABEF0123456703: rpc error: code = AlreadyExists''])
   \<and> state (fst (Update demo_env demo_model (devicesCreatedMsg 4))) = stateComplete
   \<and> devicesCreated (fst (Update demo_env demo_model (devicesCreatedMsg 4))) = 4"
proof -
  have o: "osOpen demo_world ''/home/op/devices.csv'' = Inr ''devices''"
    by (simp add: demo_world_def)
  have r: "ReadAll demo_world ''devices'' = Inr demo_records"
    by (simp add: demo_world_def)
  have h: "headerStart demo_records = Inr 1"
    by (simp add: demo_records_def headerStart_def at_def isHexString_def isHexRune_def)
  have reqs: "map (rowRequest demo_model) (filter (\<lambda>r. 2 \<le> length r) (drop 1 demo_records)) =
     [\<lparr>DevEui = ''04ABEF0123456701'', Name = ''sensor-1'', Description = ''hallway unit'',
        ApplicationId = ''a-1'', DeviceProfileId = ''p-1'', IsDisabled = False\<rparr>,
      \<lparr>DevEui = ''04ABEF0123456702'', Name = ''sensor-2'', Description = [],
        ApplicationId = ''a-1'', DeviceProfileId = ''p-1'', IsDisabled = False\<rparr>,
      \<lparr>DevEui = ''04ABEF0123456703'', Name = ''sensor-3'', Description = ''roof'',
        ApplicationId = ''a-1'', DeviceProfileId = ''p-1'', IsDisabled = False\<rparr>,
      \<lparr>DevEui = ''04ABEF0123456704'', Name = ''sensor-4'', Description = [],
        ApplicationId = ''a-1'', DeviceProfileId = ''p-1'', IsDisabled = False\<rparr>,
      \<lparr>DevEui = ''04ABEF0123456705'', Name = ''sensor-5'', Description = ''cellar'',
        ApplicationId = ''a-1'', DeviceProfileId = ''p-1'', IsDisabled = False\<rparr>]"
    by (simp add: demo_records_def rowRequest_def demo_model_def)
  from C1_best_effort_batch [OF o r h, of demo_model demo_env demo_model]
  obtain st where st: "processCSV demo_world demo_model ''/home/op/devices.csv'' = Inr (devicesCreatedMsg (created st), st)"
    and body: "(let ctx = ''Bearer '' @ apiToken demo_model;
              reqs = map (rowRequest demo_model) (filter (\<lambda>r. 2 \<le> length r) (drop 1 demo_records));
              answers = answersFrom demo_world ctx [] reqs
          in calls st = reqs
           \<and> created st = int (length (filter (\<lambda>a. a = None) answers))
           \<and> logged st = failureLines (zip reqs answers))"
    and upd: "Update demo_env demo_model (devicesCreatedMsg (created st)) =
            (demo_model\<lparr>devicesCreated := created st, state := stateComplete\<rparr>, NoCmd)"
    by blast
  from body have "created st = 4" "length (calls st) = 5"
    "logged st = [''Failed to create device 04ABEF0123456703: rpc error: code = AlreadyExists'']"
    unfolding Let_def reqs by (simp_all add: demo_world_def failureLines_def)
  with st upd o r h show ?thesis
    by (auto simp: demo_records_def)
qed

text \<open>
  C2 (header detection). The start index is 0 for no rows at all and, for a list whose first
  row has a first cell \<open>c\<close>, it is 1 exactly when \<open>c\<close> is not a non-empty string of the
  characters 0-9, a-f, A-F (the spec's wording, \<open>spec_pure_hex\<close>), and 0 otherwise; so
  \<open>dev_eui\<close> makes row 0 a header and \<open>04ABEF01\<close> makes it data. The rows the importer
  then works through are all rows in the second case and all but row 0 in the first.
\<close>

theorem C2_header_detection:
  assumes "osOpen w path = Inr file" and "ReadAll w file = Inr ((c # cs) # rest)"
  shows "headerStart [] = Inr 0
   \<and> headerStart ((c # cs) # rest) = Inr (if spec_pure_hex c then 0 else 1)
   \<and> headerStart ((''dev_eui'' # cs) # rest) = Inr 1
   \<and> headerStart ((''04ABEF01'' # cs) # rest) = Inr 0
   \<and> processCSV w m path =
       (let st = fold (processRow w m (''Bearer '' @ apiToken m))
                   (if spec_pure_hex c then (c # cs) # rest else rest) import_st0
        in Inr (devicesCreatedMsg (created st), st))"
proof -
  have ex: "spec_pure_hex ''04ABEF01''" "\<not> spec_pure_hex ''dev_eui''"
    by (simp_all add: spec_pure_hex_def)
  have "headerStart ((c # cs) # rest) = Inr (if spec_pure_hex c then 0 else 1)"
    by (simp add: headerStart_Cons isHexString_spec)
  from processCSV_read [OF assms this, of m] ex show ?thesis
    by (simp add: headerStart_Nil headerStart_Cons isHexString_spec Let_def)
qed

theorem C2_header_detection_witness:
  "osOpen demo_world ''/home/op/devices.csv'' = Inr ''devices''
   \<and> ReadAll demo_world ''devices'' = Inr ([''dev_eui'', ''name'', ''description''] # tl demo_records)
   \<and> \<not> spec_pure_hex ''dev_eui''
   \<and> processCSV demo_world demo_model ''/home/op/devices.csv'' =
       (let st = fold (processRow demo_world demo_model (''Bearer '' @ apiToken demo_model))
                   (tl demo_records) import_st0
        in Inr (devicesCreatedMsg (created st), st))"
proof -
  have o: "osOpen demo_world ''/home/op/devices.csv'' = Inr ''devices''"
    by (simp add: demo_world_def)
  have r: "ReadAll demo_world ''devices'' = Inr ((''dev_eui'' # [''name'', ''description'']) # tl demo_records)"
    by (simp add: demo_world_def demo_records_def)
  have n: "\<not> spec_pure_hex ''dev_eui''"
    by (simp add: spec_pure_hex_def)
  from C2_header_detection [OF o r, of demo_model] o r n
  show ?thesis by simp
qed

text \<open>
  C3 (the create request). A row \<open>c0, c1, ...\<close> of at least two cells makes the loop body
  issue exactly one request, with DevEui \<open>c0\<close>, Name \<open>c1\<close>, Description the third cell
  if there is one and the empty string otherwise, the model's selected application and
  device-profile ids, and IsDisabled false; the requests of a whole run of the loop are
  these, one per row of at least two cells from the start index on, in row order.
\<close>

theorem C3_create_request_fields:
  "calls (processRow w m ctx (c0 # c1 # rest) st) =
     calls st @ [\<lparr>DevEui = c0, Name = c1,
                   Description = (case rest of [] \<Rightarrow> [] | c2 # others \<Rightarrow> c2),
                   ApplicationId = selectedApp m, DeviceProfileId = selectedProfile m,
                   IsDisabled = False\<rparr>]
   \<and> calls (processRows w m ctx records i import_st0) =
       map (\<lambda>r. \<lparr>DevEui = r ! 0, Name = r ! 1,
                   Description = (if 3 \<le> length r then r ! 2 else []),
                   ApplicationId = selectedApp m, DeviceProfileId = selectedProfile m,
                   IsDisabled = False\<rparr>)
           (filter (\<lambda>r. 2 \<le> length r) (drop i records))
   \<and> Description (last (calls (processRow w m ctx [''04ABEF0123456789'', ''sensor-1''] st))) = []
   \<and> Description (last (calls (processRow w m ctx [''04ABEF0123456789'', ''sensor-1'', ''hallway unit''] st)))
       = ''hallway unit''"
proof -
  have a: "calls (processRow w m ctx (c0 # c1 # rest) st) =
     calls st @ [\<lparr>DevEui = c0, Name = c1,
                   Description = (case rest of [] \<Rightarrow> [] | c2 # others \<Rightarrow> c2),
                   ApplicationId = selectedApp m, DeviceProfileId = selectedProfile m,
                   IsDisabled = False\<rparr>]" for c0 c1 rest
    by (cases rest) (simp_all add: processRow_calls rowRequest_def)
  have b: "calls (processRows w m ctx records i import_st0) =
       map (rowRequest m) (filter (\<lambda>r. 2 \<le> length r) (drop i records))"
    by (simp add: processRows_fold fold_calls import_st0_def)
  have c: "rowRequest m = (\<lambda>r. \<lparr>DevEui = r ! 0, Name = r ! 1,
                   Description = (if 3 \<le> length r then r ! 2 else []),
                   ApplicationId = selectedApp m, DeviceProfileId = selectedProfile m,
                   IsDisabled = False\<rparr>)"
    by (rule ext) (simp add: rowRequest_def)
  show ?thesis
    unfolding a b c by simp
qed

text \<open>
  C4 (short rows). For a row of fewer than two cells at or after the start index, the loop
  body returns the loop state as it is (no request, same counter, no log line), and the
  loop over the records gives the same result as over the records without that row: nothing
  is aborted and nothing else changes.
\<close>

theorem C4_short_row_skipped:
  assumes "length r < 2" and "i \<le> length pre"
  shows "processRow w m ctx r st = st
       \<and> processRows w m ctx (pre @ r # post) i st = processRows w m ctx (pre @ post) i st"
  using assms by (simp add: processRows_fold processRow_short)

theorem C4_short_row_skipped_witness:
  "length [''04ABEF0123456789''] < 2 \<and> (1::nat) \<le> length [[''dev_eui'', ''name'']]
   \<and> processRow demo_world demo_model ''Bearer tok'' [''04ABEF0123456789''] import_st0 = import_st0
   \<and> processRows demo_world demo_model ''Bearer tok''
        ([[''dev_eui'', ''name'']] @ [''04ABEF0123456789''] # [[''04ABEF0123456701'', ''sensor-1'']]) 1 import_st0
      = processRows demo_world demo_model ''Bearer tok''
        ([[''dev_eui'', ''name'']] @ [[''04ABEF0123456701'', ''sensor-1'']]) 1 import_st0
   \<and> created (processRows demo_world demo_model ''Bearer tok''
        ([[''dev_eui'', ''name'']] @ [''04ABEF0123456789''] # [[''04ABEF0123456701'', ''sensor-1'']]) 1 import_st0) = 1"
proof -
  have l: "length [''04ABEF0123456789''] < 2" by simp
  have p: "(1::nat) \<le> length [[''dev_eui'', ''name'']]" by simp
  have c: "created (processRows demo_world demo_model ''Bearer tok''
        ([[''dev_eui'', ''name'']] @ [[''04ABEF0123456701'', ''sensor-1'']]) 1 import_st0) = 1"
    by (simp add: processRows_fold processRow_def demo_world_def import_st0_def)
  from C4_short_row_skipped [OF l p, of demo_world demo_model "''Bearer tok''" import_st0
      "[[''04ABEF0123456701'', ''sensor-1'']]"] c l p
  show ?thesis by simp
qed

text \<open>
  C5 (read failure). When \<open>os.Open\<close> fails, or it succeeds and \<open>ReadAll\<close> fails, with
  error \<open>e\<close>, \<open>processCSV\<close> returns \<open>errorMsg e\<close> with the counter at 0, no create
  request issued and nothing logged, and \<open>Update\<close> takes that message to \<open>stateError\<close>.
\<close>

theorem C5_read_failure:
  assumes "osOpen w path = Inl e \<or> (osOpen w path = Inr file \<and> ReadAll w file = Inl e)"
  shows "processCSV w m path = Inr (errorMsg e, \<lparr>created = 0, calls = [], logged = []\<rparr>)
       \<and> runCmd w (ProcessCSV m path) = Some (Inr (errorMsg e))
       \<and> Update env m' (errorMsg e) = (m'\<lparr>err := Some e, state := stateError\<rparr>, NoCmd)"
  using assms by (auto simp: processCSV_def runCmd_def import_st0_def Update_error)

theorem C5_read_failure_witness:
  "osOpen demo_world ''/home/op/missing.csv'' = Inl ''no such file or directory''
   \<and> processCSV demo_world demo_model ''/home/op/missing.csv''
       = Inr (errorMsg ''no such file or directory'', \<lparr>created = 0, calls = [], logged = []\<rparr>)
   \<and> state (fst (Update demo_env demo_model (errorMsg ''no such file or directory''))) = stateError"
proof -
  have o: "osOpen demo_world ''/home/op/missing.csv'' = Inl ''no such file or directory''"
    by (simp add: demo_world_def)
  then have "osOpen demo_world ''/home/op/missing.csv'' = Inl ''no such file or directory''
      \<or> (osOpen demo_world ''/home/op/missing.csv'' = Inr [] \<and> ReadAll demo_world [] = Inl ''no such file or directory'')"
    by simp
  from C5_read_failure [OF this, of demo_model demo_env demo_model] o
  show ?thesis by simp
qed

subsection \<open>The loaders as maps\<close>

lemma appendTenants_map:
  "appendTenants ts its =
     its @ map (\<lambda>t. \<lparr>title = tenant_Name t, desc = tenant_Name t, id' = tenant_Id t\<rparr>) ts"
  by (induction ts arbitrary: its) simp_all

lemma appendApplications_map:
  "appendApplications as its =
     its @ map (\<lambda>a. \<lparr>title = app_Name a, desc = app_Description a, id' = app_Id a\<rparr>) as"
  by (induction as arbitrary: its) simp_all

lemma appendProfiles_map:
  "appendProfiles ps its =
     its @ map (\<lambda>p. \<lparr>title = profile_Name p, desc = profile_Name p, id' = profile_Id p\<rparr>) ps"
  by (induction ps arbitrary: its) simp_all

text \<open>
  C6 (selection lists), as amended. For a successful list response with records \<open>ts\<close>, the
  loader returns the items \<open>map f ts\<close>: as many as the records, in their order, each with
  the \<open>id\<close> of its record (so non-empty exactly when the record's \<open>Id\<close> is), with
  title = description = name for tenants and device profiles, and title = name,
  description = the description field for applications.
\<close>

theorem C6_selection_lists:
  "(ListTenants w (''Bearer '' @ apiToken m) 100 = Inr ts \<longrightarrow>
      loadTenants w m = tenantsLoadedMsg
        (map (\<lambda>t. \<lparr>title = tenant_Name t, desc = tenant_Name t, id' = tenant_Id t\<rparr>) ts))
   \<and> (ListApplications w (''Bearer '' @ apiToken m) (selectedTenant m) 100 = Inr as \<longrightarrow>
      loadApplications w m = appsLoadedMsg
        (map (\<lambda>a. \<lparr>title = app_Name a, desc = app_Description a, id' = app_Id a\<rparr>) as))
   \<and> (ListDeviceProfiles w (''Bearer '' @ apiToken m) (selectedTenant m) 100 = Inr ps \<longrightarrow>
      loadDeviceProfiles w m = profilesLoadedMsg
        (map (\<lambda>p. \<lparr>title = profile_Name p, desc = profile_Name p, id' = profile_Id p\<rparr>) ps))"
  by (simp add: loadTenants_def loadApplications_def loadDeviceProfiles_def
      appendTenants_map appendApplications_map appendProfiles_map)

theorem C6_selection_lists_witness:
  "ListTenants demo_world (''Bearer '' @ apiToken demo_model) 100
      = Inr [\<lparr>tenant_Id = ''t-1'', tenant_Name = ''acme''\<rparr>, \<lparr>tenant_Id = ''t-2'', tenant_Name = ''globex''\<rparr>]
   \<and> loadTenants demo_world demo_model = tenantsLoadedMsg
        [\<lparr>title = ''acme'', desc = ''acme'', id' = ''t-1''\<rparr>,
         \<lparr>title = ''globex'', desc = ''globex'', id' = ''t-2''\<rparr>]
   \<and> loadApplications demo_world demo_model = appsLoadedMsg
        [\<lparr>title = ''sensors'', desc = ''field sensors'', id' = ''a-1''\<rparr>]
   \<and> loadDeviceProfiles demo_world demo_model = profilesLoadedMsg
        [\<lparr>title = ''class-a'', desc = ''class-a'', id' = ''p-1''\<rparr>]"
proof -
  have t: "ListTenants demo_world (''Bearer '' @ apiToken demo_model) 100
      = Inr [\<lparr>tenant_Id = ''t-1'', tenant_Name = ''acme''\<rparr>, \<lparr>tenant_Id = ''t-2'', tenant_Name = ''globex''\<rparr>]"
    by (simp add: demo_world_def)
  have a: "ListApplications demo_world (''Bearer '' @ apiToken demo_model) (selectedTenant demo_model) 100
      = Inr [\<lparr>app_Id = ''a-1'', app_Name = ''sensors'', app_Description = ''field sensors''\<rparr>]"
    by (simp add: demo_world_def)
  have p: "ListDeviceProfiles demo_world (''Bearer '' @ apiToken demo_model) (selectedTenant demo_model) 100
      = Inr [\<lparr>profile_Id = ''p-1'', profile_Name = ''class-a''\<rparr>]"
    by (simp add: demo_world_def)
  from C6_selection_lists [of demo_world demo_model] t a p
  show ?thesis by simp
qed

text \<open>A tenant whose \<open>Id\<close> is empty comes out as an item whose id is empty.\<close>

theorem C6_empty_id_counterexample:
  "ListTenants noid_world (''Bearer '' @ apiToken demo_model) 100
      = Inr [\<lparr>tenant_Id = [], tenant_Name = ''acme''\<rparr>]
   \<and> loadTenants noid_world demo_model
      = tenantsLoadedMsg [\<lparr>title = ''acme'', desc = ''acme'', id' = []\<rparr>]"
  by (simp add: noid_world_def loadTenants_def)

subsection \<open>No transition enters stateProcessing\<close>

lemma handleEnter_not_Processing:
  "state m \<noteq> stateProcessing \<Longrightarrow> state (fst (handleEnter env m)) \<noteq> stateProcessing"
  by (cases "state m") (simp_all add: handleEnter_def Let_def split: option.split)

lemma stateUpdate_state: "state (fst (stateUpdate env m message)) = state m"
  by (cases "state m") (simp_all add: stateUpdate_def Let_def split: prod.split)

lemma handleConnect_state: "state (fst (handleConnect env m)) = state m"
  by (simp add: handleConnect_def Let_def split: sum.split)

lemma Update_not_Processing:
  "state m \<noteq> stateProcessing \<Longrightarrow> state (fst (Update env m message)) \<noteq> stateProcessing"
  by (cases message)
     (simp_all add: Update_def Let_def closeClient_def handleEnter_not_Processing
        stateUpdate_state handleConnect_state split: option.split)

lemma exec_invariant:
  assumes "\<And>cfg ev cfg1. Q cfg \<Longrightarrow> R ev \<Longrightarrow> step env cfg ev = Some cfg1 \<Longrightarrow> Q cfg1"
  shows "Q cfg \<Longrightarrow> list_all R evs \<Longrightarrow> exec env cfg evs = Some cfg1 \<Longrightarrow> Q cfg1"
proof (induction evs arbitrary: cfg)
  case Nil
  then show ?case by simp
next
  case (Cons ev evs)
  then show ?case
    by (auto split: option.splits dest: assms)
qed

lemma deliver_not_Processing:
  "state m \<noteq> stateProcessing \<Longrightarrow> deliver env m inflight message = Some cfg1 \<Longrightarrow>
     state (fst cfg1) \<noteq> stateProcessing"
  using Update_not_Processing [of m env message]
  by (auto simp: deliver_def split: prod.splits if_splits)

lemma step_not_Processing:
  "state (fst cfg) \<noteq> stateProcessing \<Longrightarrow> step env cfg ev = Some cfg1 \<Longrightarrow>
     state (fst cfg1) \<noteq> stateProcessing"
  by (cases ev)
     (auto simp: step_def split: if_splits option.splits sum.splits dest: deliver_not_Processing)

lemma stateUpdate_file_chosen:
  assumes "state m = stateFileSelect"
    and "DidSelectFile env (fst (fpUpdate env (filepicker m) message)) message = (True, path)"
  shows "stateUpdate env m message =
     (m\<lparr>filepicker := fst (fpUpdate env (filepicker m) message)\<rparr>,
      ProcessCSV (m\<lparr>filepicker := fst (fpUpdate env (filepicker m) message)\<rparr>) path)"
  using assms by (cases "fpUpdate env (filepicker m) message") (simp add: stateUpdate_def Let_def)

text \<open>
  C8 (the states of a session). No run of the program from its initial model ever is in
  \<open>stateProcessing\<close>. When the file picker reports a chosen file, the switch on the
  state (and so \<open>Update\<close>) returns the import command and leaves the state at
  \<open>stateFileSelect\<close>, where it stays while the import runs; \<open>devicesCreatedMsg\<close> then
  takes it to \<open>stateComplete\<close>.
\<close>

theorem C8_never_Processing:
  "(exec env (boot env) evs = Some cfg \<longrightarrow> state (fst cfg) \<noteq> stateProcessing)
   \<and> (state m = stateFileSelect
        \<and> DidSelectFile env (fst (fpUpdate env (filepicker m) message)) message = (True, path) \<longrightarrow>
      (\<exists>m1. stateUpdate env m message = (m1, ProcessCSV m1 path) \<and> state m1 = stateFileSelect))
   \<and> (state m = stateFileSelect
        \<and> DidSelectFile env (fst (fpUpdate env (filepicker m) (OtherMsg x))) (OtherMsg x) = (True, path) \<longrightarrow>
      (\<exists>m1. Update env m (OtherMsg x) = (m1, ProcessCSV m1 path) \<and> state m1 = stateFileSelect))
   \<and> state (fst (Update env m (devicesCreatedMsg n))) = stateComplete"
proof -
  have init: "state (fst (boot env)) \<noteq> stateProcessing"
    by (simp add: boot_def initialModel_def)
  have "state (fst cfg) \<noteq> stateProcessing" if run: "exec env (boot env) evs = Some cfg"
  proof (rule exec_invariant [where Q = "\<lambda>c. state (fst c) \<noteq> stateProcessing"
        and R = "\<lambda>ev. True"])
    fix c ev c1
    assume "state (fst c) \<noteq> stateProcessing" and "step env c ev = Some c1"
    then show "state (fst c1) \<noteq> stateProcessing"
      by (rule step_not_Processing)
  next
    show "state (fst (boot env)) \<noteq> stateProcessing" by (rule init)
    show "list_all (\<lambda>ev. True) evs" by (simp add: list_all_iff)
    show "exec env (boot env) evs = Some cfg" by (rule run)
  qed
  then show ?thesis
    by (auto simp: Update_def stateUpdate_file_chosen)
qed

theorem C8_never_Processing_witness:
  "map_option (\<lambda>cfg. (state (fst cfg), map isOwn (snd cfg)))
       (exec demo_env (boot demo_env) (session_keys demo_world))
      = Some (stateFileSelect, [True])
   \<and> map_option (\<lambda>cfg. (state (fst cfg), snd cfg))
       (exec demo_env (boot demo_env) (session_keys demo_world @ [Done 0 demo_world]))
      = Some (stateComplete, [])
   \<and> map_option (\<lambda>cfg. state (fst cfg) \<noteq> stateProcessing)
       (exec demo_env (boot demo_env) (session_keys demo_world))
      = Some True"
proof -
  have a: "map_option (\<lambda>cfg. (state (fst cfg), map isOwn (snd cfg)))
       (exec demo_env (boot demo_env) (session_keys demo_world))
      = Some (stateFileSelect, [True])"
    by code_simp
  have b: "map_option (\<lambda>cfg. (state (fst cfg), snd cfg))
       (exec demo_env (boot demo_env) (session_keys demo_world @ [Done 0 demo_world]))
      = Some (stateComplete, [])"
    by code_simp
  from a obtain cfg where c: "exec demo_env (boot demo_env) (session_keys demo_world) = Some cfg"
    by auto
  with C8_never_Processing [of demo_env "session_keys demo_world" cfg]
  have "state (fst cfg) \<noteq> stateProcessing"
    by simp
  with a b c show ?thesis
    by simp
qed

text \<open>
  C9 (the index in header detection). \<open>records[0][0]\<close> is in range when row 0 has a cell
  and panics when row 0 has none; once the file has been read, \<open>processCSV\<close> panics with
  an index out of range exactly when there is a row 0 and it has no cell, and returns
  \<open>devicesCreatedMsg\<close> exactly otherwise.
\<close>

theorem C9_header_index_panic:
  assumes "osOpen w path = Inr file" and "ReadAll w file = Inr records"
  shows "headerStart ((c # cs) # rest) = Inr (if isHexString c then 0 else 1)
       \<and> headerStart ([] # rest) = Inl IndexOutOfRange
       \<and> (processCSV w m path = Inl IndexOutOfRange) = (records \<noteq> [] \<and> records ! 0 = [])
       \<and> (\<exists>st. processCSV w m path = Inr (devicesCreatedMsg (created st), st))
           = (records = [] \<or> records ! 0 \<noteq> [])"
proof -
  consider "records = []" | rest' where "records = [] # rest'"
    | c' cs' rest' where "records = (c' # cs') # rest'"
    by (cases records; cases "hd records") auto
  then have "(processCSV w m path = Inl IndexOutOfRange) = (records \<noteq> [] \<and> records ! 0 = [])
       \<and> (\<exists>st. processCSV w m path = Inr (devicesCreatedMsg (created st), st))
           = (records = [] \<or> records ! 0 \<noteq> [])"
  proof cases
    case 1
    with assms show ?thesis
      by (simp add: processCSV_read [OF assms, of 0] headerStart_Nil)
  next
    case 2
    with assms show ?thesis
      by (simp add: processCSV_def headerStart_empty_row)
  next
    case 3
    with assms show ?thesis
      by (simp add: processCSV_read [OF assms, of "if isHexString c' then 0 else 1"] headerStart_Cons)
  qed
  then show ?thesis
    by (simp add: headerStart_Cons headerStart_empty_row)
qed

theorem C9_header_index_panic_witness:
  "osOpen demo_world ''/home/op/blank.csv'' = Inr ''blank''
   \<and> ReadAll demo_world ''blank'' = Inr [[]]
   \<and> processCSV demo_world demo_model ''/home/op/blank.csv'' = Inl IndexOutOfRange
   \<and> \<not> (\<exists>st. processCSV demo_world demo_model ''/home/op/blank.csv'' = Inr (devicesCreatedMsg (created st), st))"
proof -
  have o: "osOpen demo_world ''/home/op/blank.csv'' = Inr ''blank''"
    by (simp add: demo_world_def)
  have r: "ReadAll demo_world ''blank'' = Inr [[]]"
    by (simp add: demo_world_def)
  from C9_header_index_panic [OF o r, of _ _ _ demo_model] o r
  show ?thesis by simp
qed




subsection \<open>The invariant of a session\<close>

lemma itemsOk_SetSize [simp]: "itemsOk (SetSize l w h) = itemsOk l"
  by (simp add: itemsOk_def SetSize_def)





























end
